theory Spec2Isabelle
  imports Complex_Main "HOL-Library.Sublist" "HOL-Library.Word"
begin

section \<open>Strings and bytes\<close>

text \<open>
  A Python \<open>str\<close> is a sequence of Unicode code points and a \<open>bytes\<close> value a sequence
  of octets. Literals of the source, all ASCII, are written with \<open>ascii\<close> and \<open>bytes\<close>.
\<close>

type_synonym pystr = "nat list"

type_synonym byte = "8 word"

definition ascii :: "string \<Rightarrow> pystr" where
  "ascii s = map of_char s"

definition bytes :: "string \<Rightarrow> byte list" where
  "bytes s = map of_char s"

text \<open>
  \<open>str.lower()\<close>. The case table of the Python runtime is not part of the repository;
  the letters \<open>A\<close> to \<open>Z\<close> are mapped to \<open>a\<close> to \<open>z\<close> and every other code point is
  kept, which is what \<open>str.lower()\<close> does on ASCII text such as \<open>tcp\<close> and \<open>udp\<close>.
\<close>

definition lower_char :: "nat \<Rightarrow> nat" where
  "lower_char c = (if 65 \<le> c \<and> c \<le> 90 then c + 32 else c)"

definition lower :: "pystr \<Rightarrow> pystr" where
  "lower s = map lower_char s"

text \<open>\<open>sub in s\<close> on two \<open>str\<close> values: \<open>sub\<close> occurs in \<open>s\<close> as a contiguous run.\<close>

primrec str_contains :: "pystr \<Rightarrow> pystr \<Rightarrow> bool" where
  "str_contains [] sub = (sub = [])"
| "str_contains (c # s) sub = (prefix sub (c # s) \<or> str_contains s sub)"

subsection \<open>Decoding UTF-8 with an error handler\<close>

text \<open>
  \<open>bytes.decode('utf-8', errors=...)\<close> of the Python runtime. The decoder walks the
  octets; a well-formed sequence gives its code point, and each maximal ill-formed run
  (a stray continuation or start octet, a start octet whose continuation is wrong, a
  sequence cut off by the end of the data) is handed to the error handler once.
  The handler \<open>ignore\<close> drops the run, \<open>replace\<close> puts U+FFFD in its place; neither
  of them raises.
\<close>

datatype decoded = CodePoint nat | Undecodable

definition is_continuation :: "nat \<Rightarrow> bool" where
  "is_continuation c \<longleftrightarrow> 128 \<le> c \<and> c < 192"

fun utf8_scan :: "nat list \<Rightarrow> decoded list" where
  "utf8_scan [] = []"
| "utf8_scan (b # bs) =
    (if b < 128 then CodePoint b # utf8_scan bs
     else if b < 194 then Undecodable # utf8_scan bs
     else if b < 224 then
       (case bs of
          [] \<Rightarrow> [Undecodable]
        | c # cs \<Rightarrow>
            if is_continuation c
            then CodePoint ((b - 192) * 64 + (c - 128)) # utf8_scan cs
            else Undecodable # utf8_scan bs)
     else if b < 240 then
       (case bs of
          [] \<Rightarrow> [Undecodable]
        | c # cs \<Rightarrow>
            if \<not> is_continuation c \<or> (b = 224 \<and> c < 160) \<or> (b = 237 \<and> 160 \<le> c)
            then Undecodable # utf8_scan bs
            else
              (case cs of
                 [] \<Rightarrow> [Undecodable]
               | d # ds \<Rightarrow>
                   if is_continuation d
                   then CodePoint (((b - 224) * 64 + (c - 128)) * 64 + (d - 128)) # utf8_scan ds
                   else Undecodable # utf8_scan cs))
     else if b < 245 then
       (case bs of
          [] \<Rightarrow> [Undecodable]
        | c # cs \<Rightarrow>
            if \<not> is_continuation c \<or> (b = 240 \<and> c < 144) \<or> (b = 244 \<and> 144 \<le> c)
            then Undecodable # utf8_scan bs
            else
              (case cs of
                 [] \<Rightarrow> [Undecodable]
               | d # ds \<Rightarrow>
                   if \<not> is_continuation d then Undecodable # utf8_scan cs
                   else
                     (case ds of
                        [] \<Rightarrow> [Undecodable]
                      | e # es \<Rightarrow>
                          if is_continuation e
                          then CodePoint ((((b - 240) * 64 + (c - 128)) * 64 + (d - 128)) * 64
                                          + (e - 128)) # utf8_scan es
                          else Undecodable # utf8_scan ds)))
     else Undecodable # utf8_scan bs)"

datatype error_handler = Ignore | Replace

primrec handle :: "error_handler \<Rightarrow> decoded \<Rightarrow> pystr" where
  "handle h (CodePoint c) = [c]"
| "handle h Undecodable = (case h of Ignore \<Rightarrow> [] | Replace \<Rightarrow> [65533])"

definition decode_utf8 :: "byte list \<Rightarrow> error_handler \<Rightarrow> pystr" where
  "decode_utf8 data errors = concat (map (handle errors) (utf8_scan (map unat data)))"

section \<open>Signatures\<close>

record Signature =
  name :: pystr
  port :: int
  protocol :: pystr
  patterns :: "pystr list"
  description :: pystr

text \<open>
  \<open>Signature.__init__\<close>: the protocol is lowercased; \<open>patterns or []\<close> turns an absent
  (or empty) pattern list into the empty list.
\<close>

definition Signature_init ::
  "pystr \<Rightarrow> int \<Rightarrow> pystr \<Rightarrow> pystr list option \<Rightarrow> pystr \<Rightarrow> Signature" where
  "Signature_init nm prt proto pats descr =
     \<lparr> name = nm, port = prt, protocol = lower proto,
       patterns = (case pats of None \<Rightarrow> [] | Some ps \<Rightarrow> if ps \<noteq> [] then ps else []),
       description = descr \<rparr>"

definition matches_port :: "Signature \<Rightarrow> int \<Rightarrow> pystr \<Rightarrow> bool" where
  "matches_port self prt proto \<longleftrightarrow> port self = prt \<and> lower (protocol self) = lower proto"

text \<open>The \<open>for pattern in self.patterns\<close> loop of \<open>matches_pattern\<close>, with its early return.\<close>

primrec any_pattern_in :: "pystr list \<Rightarrow> pystr \<Rightarrow> bool" where
  "any_pattern_in [] data_str = False"
| "any_pattern_in (pattern # rest) data_str =
     (if str_contains data_str pattern then True else any_pattern_in rest data_str)"

definition matches_pattern :: "Signature \<Rightarrow> byte list \<Rightarrow> bool" where
  "matches_pattern self data =
     (if patterns self = [] then False
      else any_pattern_in (patterns self) (decode_utf8 data Ignore))"

section \<open>The signature database\<close>

record SignatureDatabase =
  signatures :: "Signature list"

definition add_signature :: "Signature \<Rightarrow> SignatureDatabase \<Rightarrow> SignatureDatabase" where
  "add_signature signature self = self\<lparr>signatures := signatures self @ [signature]\<rparr>"

definition default_signatures :: "Signature list" where
  "default_signatures =
    [Signature_init (ascii ''HTTP'') 80 (ascii ''tcp'')
       (Some [ascii ''HTTP/1.1'', ascii ''HTTP/1.0'', ascii ''GET '', ascii ''POST ''])
       (ascii ''Hypertext Transfer Protocol''),
     Signature_init (ascii ''HTTPS'') 443 (ascii ''tcp'')
       (Some [ascii ''TLS'', ascii ''SSL''])
       (ascii ''Secure HTTP over TLS/SSL''),
     Signature_init (ascii ''SSH'') 22 (ascii ''tcp'')
       (Some [ascii ''SSH-2.0'', ascii ''SSH-1.99''])
       (ascii ''Secure Shell Protocol''),
     Signature_init (ascii ''FTP'') 21 (ascii ''tcp'')
       (Some [ascii ''220 '', ascii ''USER '', ascii ''PASS ''])
       (ascii ''File Transfer Protocol''),
     Signature_init (ascii ''SMTP'') 25 (ascii ''tcp'')
       (Some [ascii ''220 '', ascii ''EHLO '', ascii ''HELO ''])
       (ascii ''Simple Mail Transfer Protocol''),
     Signature_init (ascii ''DNS'') 53 (ascii ''udp'') (Some [])
       (ascii ''Domain Name System''),
     Signature_init (ascii ''MySQL'') 3306 (ascii ''tcp'') (Some [])
       (ascii ''MySQL Database''),
     Signature_init (ascii ''PostgreSQL'') 5432 (ascii ''tcp'') (Some [])
       (ascii ''PostgreSQL Database''),
     Signature_init (ascii ''Redis'') 6379 (ascii ''tcp'')
       (Some [ascii ''+PONG'', ascii ''-ERR''])
       (ascii ''Redis In-Memory Database''),
     Signature_init (ascii ''MongoDB'') 27017 (ascii ''tcp'') (Some [])
       (ascii ''MongoDB NoSQL Database'')]"

text \<open>\<open>SignatureDatabase.__init__\<close>: an empty list, then every default signature is added.\<close>

definition SignatureDatabase_init :: "SignatureDatabase" where
  "SignatureDatabase_init =
     fold add_signature default_signatures \<lparr> signatures = [] \<rparr>"

definition find_by_port :: "SignatureDatabase \<Rightarrow> int \<Rightarrow> pystr \<Rightarrow> Signature list" where
  "find_by_port self prt proto = filter (\<lambda>sig. matches_port sig prt proto) (signatures self)"

text \<open>The loop of \<open>find_by_pattern\<close>, appending to \<open>matches\<close>.\<close>

primrec find_by_pattern_loop ::
  "Signature list \<Rightarrow> byte list \<Rightarrow> Signature list \<Rightarrow> Signature list" where
  "find_by_pattern_loop [] data matches = matches"
| "find_by_pattern_loop (sig # sigs) data matches =
     (if patterns sig \<noteq> [] \<and> matches_pattern sig data
      then find_by_pattern_loop sigs data (matches @ [sig])
      else find_by_pattern_loop sigs data matches)"

definition find_by_pattern :: "SignatureDatabase \<Rightarrow> byte list \<Rightarrow> Signature list" where
  "find_by_pattern self data = find_by_pattern_loop (signatures self) data []"

subsection \<open>Export and import\<close>

text \<open>
  A persisted record is a dict whose keys are among \<open>name\<close>, \<open>port\<close>, \<open>protocol\<close>,
  \<open>patterns\<close> and \<open>description\<close>; a field is \<open>None\<close> when the record has no such key.
\<close>

record sig_dict =
  d_name :: "pystr option"
  d_port :: "int option"
  d_protocol :: "pystr option"
  d_patterns :: "pystr list option"
  d_description :: "pystr option"

datatype error = KeyError string

definition to_dict :: "Signature \<Rightarrow> sig_dict" where
  "to_dict self =
     \<lparr> d_name = Some (name self), d_port = Some (port self),
       d_protocol = Some (protocol self), d_patterns = Some (patterns self),
       d_description = Some (description self) \<rparr>"

text \<open>
  \<open>Signature.from_dict\<close>: \<open>data["name"]\<close> and \<open>data["port"]\<close> raise \<open>KeyError\<close> on a
  missing key, in this order; the other three fields fall back to a default.
\<close>

definition from_dict :: "sig_dict \<Rightarrow> error + Signature" where
  "from_dict data =
     (case d_name data of
        None \<Rightarrow> Inl (KeyError ''name'')
      | Some nm \<Rightarrow>
          (case d_port data of
             None \<Rightarrow> Inl (KeyError ''port'')
           | Some prt \<Rightarrow>
               Inr (Signature_init nm prt
                      (case d_protocol data of None \<Rightarrow> ascii ''tcp'' | Some p \<Rightarrow> p)
                      (Some (case d_patterns data of None \<Rightarrow> [] | Some ps \<Rightarrow> ps))
                      (case d_description data of None \<Rightarrow> [] | Some d \<Rightarrow> d))))"

text \<open>
  \<open>save_to_file\<close> writes the list of dicts and \<open>load_from_file\<close> reads one back; the
  JSON text between them carries strings, integers and lists of strings unchanged, so
  the record list stands for the file. \<open>load_from_file\<close> first empties
  \<open>self.signatures\<close> and then appends record by record; an exception leaves the
  database as it is at that moment.
\<close>

definition save_to_file :: "SignatureDatabase \<Rightarrow> sig_dict list" where
  "save_to_file self = map to_dict (signatures self)"

primrec load_loop ::
  "sig_dict list \<Rightarrow> SignatureDatabase \<Rightarrow> (error + unit) \<times> SignatureDatabase" where
  "load_loop [] self = (Inr (), self)"
| "load_loop (sig_data # rest) self =
     (case from_dict sig_data of
        Inl e \<Rightarrow> (Inl e, self)
      | Inr sig \<Rightarrow> load_loop rest (self\<lparr>signatures := signatures self @ [sig]\<rparr>))"

definition load_from_file ::
  "sig_dict list \<Rightarrow> SignatureDatabase \<Rightarrow> (error + unit) \<times> SignatureDatabase" where
  "load_from_file data self = load_loop data (self\<lparr>signatures := []\<rparr>)"

section \<open>The detector\<close>

text \<open>
  Confidence values are the float constants \<open>0.0\<close>, \<open>0.5\<close>, \<open>0.7\<close>, \<open>0.95\<close> and \<open>1.0\<close>;
  the code only compares them and takes their maximum, so they are read as reals.
\<close>

record DetectionResult =
  result_port :: int
  result_protocol :: pystr
  matches :: "Signature list"
  confidence :: real

definition DetectionResult_init :: "int \<Rightarrow> pystr \<Rightarrow> DetectionResult" where
  "DetectionResult_init prt proto =
     \<lparr> result_port = prt, result_protocol = proto, matches = [], confidence = 0 \<rparr>"

definition add_match :: "DetectionResult \<Rightarrow> Signature \<Rightarrow> real \<Rightarrow> DetectionResult" where
  "add_match self signature conf =
     self\<lparr> matches := matches self @ [signature],
           confidence := max (confidence self) conf \<rparr>"

definition get_best_match :: "DetectionResult \<Rightarrow> Signature option" where
  "get_best_match self = (case matches self of [] \<Rightarrow> None | first # _ \<Rightarrow> Some first)"

text \<open>
  The loop \<open>for match in ms: result.add_match(match, confidence=...)\<close>, which occurs
  three times in the detector; \<open>conf\<close> is the confidence the loop body computes for a match.
\<close>

primrec add_matches ::
  "(Signature \<Rightarrow> real) \<Rightarrow> Signature list \<Rightarrow> DetectionResult \<Rightarrow> DetectionResult" where
  "add_matches conf [] result = result"
| "add_matches conf (match # rest) result =
     add_matches conf rest (add_match result match (conf match))"

definition detect_by_port :: "SignatureDatabase \<Rightarrow> int \<Rightarrow> pystr \<Rightarrow> DetectionResult" where
  "detect_by_port db prt proto =
     add_matches (\<lambda>match. 0.7) (find_by_port db prt proto) (DetectionResult_init prt proto)"

text \<open>
  Truth value of an \<open>Optional[int]\<close> in \<open>if port\<close>, \<open>port and ...\<close> and \<open>port or 0\<close>:
  false for \<open>None\<close> and for \<open>0\<close>.
\<close>

definition truthy :: "int option \<Rightarrow> bool" where
  "truthy prt = (case prt of None \<Rightarrow> False | Some p \<Rightarrow> p \<noteq> 0)"

text \<open>The body of the first loop of \<open>detect_by_data\<close>.\<close>

definition pattern_confidence :: "int option \<Rightarrow> pystr \<Rightarrow> Signature \<Rightarrow> real" where
  "pattern_confidence prt proto match =
     (case prt of
        None \<Rightarrow> 0.95
      | Some p \<Rightarrow> if p \<noteq> 0 \<and> matches_port match p proto then 1.0 else 0.95)"

definition detect_by_data ::
  "SignatureDatabase \<Rightarrow> byte list \<Rightarrow> int option \<Rightarrow> pystr \<Rightarrow> DetectionResult" where
  "detect_by_data db data prt proto =
     (let result = DetectionResult_init (case prt of None \<Rightarrow> 0 | Some p \<Rightarrow> if p \<noteq> 0 then p else 0) proto;
          pattern_matches = find_by_pattern db data;
          result = add_matches (pattern_confidence prt proto) pattern_matches result
      in case prt of
           None \<Rightarrow> result
         | Some p \<Rightarrow>
             if pattern_matches = [] \<and> p \<noteq> 0
             then add_matches (\<lambda>match. 0.5) (find_by_port db p proto) result
             else result)"

text \<open>\<open>if data\<close> is false for \<open>None\<close> and for the empty byte string.\<close>

definition detect ::
  "SignatureDatabase \<Rightarrow> int \<Rightarrow> pystr \<Rightarrow> byte list option \<Rightarrow> DetectionResult" where
  "detect db prt proto data =
     (case data of
        None \<Rightarrow> detect_by_port db prt proto
      | Some d \<Rightarrow>
          if d \<noteq> [] then detect_by_data db d (Some prt) proto
          else detect_by_port db prt proto)"

text \<open>A query dict of \<open>detect_multiple\<close>, read with \<open>service.get\<close>.\<close>

record service =
  s_port :: "int option"
  s_protocol :: "pystr option"
  s_data :: "byte list option"

primrec detect_multiple_loop ::
  "SignatureDatabase \<Rightarrow> service list \<Rightarrow> DetectionResult list \<Rightarrow> DetectionResult list" where
  "detect_multiple_loop db [] results = results"
| "detect_multiple_loop db (svc # rest) results =
     (let prt = s_port svc;
          proto = (case s_protocol svc of None \<Rightarrow> ascii ''tcp'' | Some p \<Rightarrow> p);
          data = s_data svc
      in case prt of
           None \<Rightarrow> detect_multiple_loop db rest results
         | Some p \<Rightarrow>
             if p \<noteq> 0 then detect_multiple_loop db rest (results @ [detect db p proto data])
             else detect_multiple_loop db rest results)"

definition detect_multiple :: "SignatureDatabase \<Rightarrow> service list \<Rightarrow> DetectionResult list" where
  "detect_multiple db services = detect_multiple_loop db services []"

section \<open>Sequences of \<open>add_match\<close> calls\<close>

text \<open>
  The result after the calls \<open>result.add_match(signature, conf)\<close> for each pair of a
  list, in order. The detector's loops are such sequences, and the properties below say
  which pairs they are.
\<close>

fun add_calls :: "DetectionResult \<Rightarrow> (Signature \<times> real) list \<Rightarrow> DetectionResult" where
  "add_calls result [] = result"
| "add_calls result ((signature, conf) # calls) =
     add_calls (add_match result signature conf) calls"

section \<open>What the constructor establishes\<close>

text \<open>
  A signature object is only ever made by \<open>Signature.__init__\<close>, which stores the
  protocol in lower case; \<open>constructed\<close> is that invariant.
\<close>

definition constructed :: "Signature \<Rightarrow> bool" where
  "constructed sig \<longleftrightarrow> protocol sig = lower (protocol sig)"

section \<open>Example inputs\<close>

definition tcp :: pystr where
  "tcp = ascii ''tcp''"

text \<open>A database with one signature, whose only pattern is \<open>AB\<close>.\<close>

definition ab_signature :: Signature where
  "ab_signature = Signature_init (ascii ''AB'') 9000 tcp (Some [ascii ''AB'']) []"

definition ab_database :: SignatureDatabase where
  "ab_database = \<lparr> signatures = [ab_signature] \<rparr>"

text \<open>A database with one signature on port 0, whose only pattern is \<open>X\<close>.\<close>

definition zero_port_signature :: Signature where
  "zero_port_signature = Signature_init (ascii ''ZERO'') 0 tcp (Some [ascii ''X'']) []"

definition zero_port_database :: SignatureDatabase where
  "zero_port_database = \<lparr> signatures = [zero_port_signature] \<rparr>"

text \<open>A signature whose pattern list holds the empty string, after an ordinary one.\<close>

definition empty_pattern_signature :: Signature where
  "empty_pattern_signature = Signature_init (ascii ''ANY'') 7 tcp (Some [[]]) []"

definition empty_pattern_database :: SignatureDatabase where
  "empty_pattern_database = \<lparr> signatures = [ab_signature, empty_pattern_signature] \<rparr>"

text \<open>The samples \<open>b"HTTP/1.1 200 OK\r\n"\<close> and \<open>b"UNKNOWN PROTOCOL DATA"\<close> of the tests.\<close>

definition http_response :: "byte list" where
  "http_response = bytes ''HTTP/1.1 200 OK'' @ [13, 10]"

definition unknown_data :: "byte list" where
  "unknown_data = bytes ''UNKNOWN PROTOCOL DATA''"

text \<open>Four queries: two to answer, one with port 0 and one without a port.\<close>

definition sample_queries :: "service list" where
  "sample_queries =
     [\<lparr> s_port = Some 80, s_protocol = Some tcp, s_data = None \<rparr>,
      \<lparr> s_port = Some 0, s_protocol = Some tcp, s_data = None \<rparr>,
      \<lparr> s_port = None, s_protocol = None, s_data = Some (bytes ''SSH-2.0'') \<rparr>,
      \<lparr> s_port = Some 22, s_protocol = None, s_data = Some (bytes ''SSH-2.0'') \<rparr>]"

text \<open>Two malformed records: one without \<open>port\<close>, one without \<open>name\<close>.\<close>

definition portless_record :: sig_dict where
  "portless_record =
     \<lparr> d_name = Some (ascii ''BROKEN''), d_port = None, d_protocol = Some tcp,
       d_patterns = None, d_description = None \<rparr>"

definition nameless_record :: sig_dict where
  "nameless_record =
     \<lparr> d_name = None, d_port = Some 8080, d_protocol = None,
       d_patterns = Some [ascii ''X''], d_description = None \<rparr>"

section \<open>Evaluation rules\<close>

lemmas string_simps = ascii_def bytes_def lower_def lower_char_def

lemmas signature_simps = Signature_init_def matches_port_def matches_pattern_def
  decode_utf8_def is_continuation_def

lemmas database_simps = SignatureDatabase_init_def default_signatures_def add_signature_def
  find_by_port_def find_by_pattern_def

lemmas detector_simps = DetectionResult_init_def add_match_def get_best_match_def
  detect_by_port_def detect_by_data_def detect_def pattern_confidence_def truthy_def

lemma signatures_default: "signatures SignatureDatabase_init = default_signatures"
  by (simp add: SignatureDatabase_init_def default_signatures_def add_signature_def)

section \<open>Pattern lookup\<close>

text \<open>On a sample of ASCII octets the decoder returns the octets as code points.\<close>

lemma utf8_scan_ascii: "\<forall>b \<in> set bs. b < 128 \<Longrightarrow> utf8_scan bs = map CodePoint bs"
  by (induction bs) simp_all

lemma decode_utf8_ascii:
  "\<forall>b \<in> set data. unat b < 128 \<Longrightarrow> decode_utf8 data errors = map unat data"
  by (simp add: decode_utf8_def utf8_scan_ascii comp_def)

lemma str_contains_sublist: "str_contains s sub \<longleftrightarrow> sublist sub s"
  by (induction s) (simp_all add: sublist_Cons_right)

lemma any_pattern_in_iff:
  "any_pattern_in ps text \<longleftrightarrow> (\<exists>pattern \<in> set ps. sublist pattern text)"
  by (induction ps) (simp_all add: str_contains_sublist)

lemma matches_pattern_iff:
  "matches_pattern sig data \<longleftrightarrow>
     patterns sig \<noteq> [] \<and>
     (\<exists>pattern \<in> set (patterns sig). sublist pattern (decode_utf8 data Ignore))"
  by (simp add: matches_pattern_def any_pattern_in_iff)

lemma find_by_pattern_loop_filter:
  "find_by_pattern_loop sigs data acc =
     acc @ filter (\<lambda>sig. patterns sig \<noteq> [] \<and> matches_pattern sig data) sigs"
  by (induction sigs arbitrary: acc) simp_all

lemma find_by_pattern_filter:
  "find_by_pattern db data =
     filter (\<lambda>sig. patterns sig \<noteq> [] \<and> matches_pattern sig data) (signatures db)"
  by (simp add: find_by_pattern_def find_by_pattern_loop_filter)

text \<open>
  C1, as the code has it. \<open>matches_pattern\<close> decodes the sample with
  \<open>errors='ignore'\<close>: undecodable octets are dropped, not replaced. For every database
  and every byte sample, \<open>find_by_pattern\<close> returns, in insertion order, exactly the
  entries whose pattern list is non-empty and one of whose patterns is a contiguous run
  (\<open>sublist\<close>) of the text decoded that way. The decoding is a total function: no sample
  makes it fail.
\<close>

theorem find_by_pattern_ignore_decoded:
  "find_by_pattern db data =
     filter (\<lambda>sig. patterns sig \<noteq> [] \<and>
               (\<exists>pattern \<in> set (patterns sig). sublist pattern (decode_utf8 data Ignore)))
       (signatures db)"
  unfolding find_by_pattern_filter
  by (rule filter_cong) (auto simp: matches_pattern_iff)

text \<open>
  On the sample \<open>A\<close>, \<open>0xFF\<close>, \<open>B\<close> the signature with pattern \<open>AB\<close> is found, since the
  text is \<open>AB\<close> once the bad octet is dropped; on \<open>A B\<close> it is not.
\<close>

theorem find_by_pattern_ignore_decoded_witness:
  "find_by_pattern ab_database [0x41, 0xFF, 0x42] = [ab_signature]
   \<and> find_by_pattern ab_database [0x41, 0x20, 0x42] = []"
  using find_by_pattern_ignore_decoded [of ab_database "[0x41, 0xFF, 0x42]"]
    find_by_pattern_ignore_decoded [of ab_database "[0x41, 0x20, 0x42]"]
  by (simp add: ab_database_def ab_signature_def tcp_def string_simps signature_simps
      sublist_Cons_right)

text \<open>
  C1 as stated fails: with the octet \<open>0xFF\<close> replaced by U+FFFD the text is
  \<open>A\<close>, U+FFFD, \<open>B\<close>, which does not contain \<open>AB\<close>, and yet the entry is returned.
\<close>

theorem find_by_pattern_replace_counterexample:
  "find_by_pattern ab_database [0x41, 0xFF, 0x42] = [ab_signature]
   \<and> patterns ab_signature = [ascii ''AB'']
   \<and> \<not> sublist (ascii ''AB'') (decode_utf8 [0x41, 0xFF, 0x42] Replace)"
  by (simp add: ab_database_def ab_signature_def tcp_def string_simps signature_simps
      database_simps sublist_Cons_right)

text \<open>The empty string occurs in every text.\<close>

lemma empty_pattern_matches: "[] \<in> set (patterns sig) \<Longrightarrow> matches_pattern sig data"
  unfolding matches_pattern_iff by (auto intro: bexI [of _ "[]"])

section \<open>The calls a detection makes\<close>

lemma add_matches_add_calls:
  "add_matches conf ms result = add_calls result (map (\<lambda>match. (match, conf match)) ms)"
  by (induction ms arbitrary: result) simp_all

lemma matches_add_calls: "matches (add_calls result calls) = matches result @ map fst calls"
  by (induction result calls rule: add_calls.induct) (simp_all add: add_match_def)

lemma confidence_add_calls:
  "confidence (add_calls result calls) = Max (insert (confidence result) (snd ` set calls))"
proof (induction result calls rule: add_calls.induct)
  case (1 result)
  then show ?case by simp
next
  case (2 result signature conf calls)
  have "Max (insert (max (confidence result) conf) (snd ` set calls))
      = Max (insert (confidence result) (insert conf (snd ` set calls)))"
    by (cases "calls = []") (simp_all add: max.assoc)
  with 2 show ?case by (simp add: add_match_def)
qed

lemma detect_by_port_calls:
  "detect_by_port db prt proto =
     add_calls (DetectionResult_init prt proto)
       (map (\<lambda>sig. (sig, 0.7)) (find_by_port db prt proto))"
  by (simp add: detect_by_port_def add_matches_add_calls)

lemma detect_by_data_calls:
  "detect_by_data db data prt proto =
     add_calls (DetectionResult_init (case prt of None \<Rightarrow> 0 | Some p \<Rightarrow> p) proto)
       (map (\<lambda>sig. (sig, pattern_confidence prt proto sig)) (find_by_pattern db data) @
        (if find_by_pattern db data = [] \<and> truthy prt
         then map (\<lambda>sig. (sig, 0.5)) (find_by_port db (the prt) proto) else []))"
  by (cases prt) (simp_all add: detect_by_data_def Let_def add_matches_add_calls truthy_def)

lemma pattern_confidence_eq:
  "pattern_confidence prt proto sig =
     (if \<exists>p. prt = Some p \<and> p \<noteq> 0 \<and> port sig = p \<and> lower (protocol sig) = lower proto
      then 1 else 0.95)"
  by (cases prt) (auto simp: pattern_confidence_def matches_port_def)

lemma pattern_confidence_cases:
  "pattern_confidence prt proto sig = 0.95 \<or> pattern_confidence prt proto sig = 1"
  by (simp add: pattern_confidence_def split: option.splits)

section \<open>Detection by data\<close>

text \<open>
  C2, as the code has it. The code tests \<open>port and match.matches_port(port, protocol)\<close>,
  so a supplied port of 0 counts as no port. Whenever \<open>find_by_pattern\<close> returns
  something, the result of \<open>detect_by_data\<close> is the fresh result after one \<open>add_match\<close>
  call per signature that \<open>find_by_pattern\<close> returns, in order, with confidence
  exactly 1.0 if a non-zero port was supplied, the signature's own port equals it and
  its protocol equals the supplied protocol case-insensitively, and exactly 0.95
  otherwise.
\<close>

theorem detect_by_data_pattern_confidence:
  assumes "find_by_pattern db data \<noteq> []"
  shows "detect_by_data db data prt proto =
     add_calls (DetectionResult_init (case prt of None \<Rightarrow> 0 | Some p \<Rightarrow> p) proto)
       (map (\<lambda>sig. (sig,
               if \<exists>p. prt = Some p \<and> p \<noteq> 0 \<and> port sig = p
                    \<and> lower (protocol sig) = lower proto
               then 1 else 0.95))
          (find_by_pattern db data))"
  using assms by (simp add: detect_by_data_calls pattern_confidence_eq)

text \<open>
  \<open>detect_by_data(b"HTTP/1.1 200 OK\r\n", port=80, protocol="tcp")\<close> on the default
  database finds HTTP with confidence exactly 1.0; with port 443 the confidence is 0.95.
\<close>

theorem detect_by_data_pattern_confidence_witness:
  "find_by_pattern SignatureDatabase_init http_response \<noteq> []
   \<and> map name (matches (detect_by_data SignatureDatabase_init http_response (Some 80) tcp))
       = [ascii ''HTTP'']
   \<and> confidence (detect_by_data SignatureDatabase_init http_response (Some 80) tcp) = 1
   \<and> confidence (detect_by_data SignatureDatabase_init http_response (Some 443) tcp) = 0.95"
proof -
  have found: "find_by_pattern SignatureDatabase_init http_response = [hd default_signatures]"
    by (simp add: find_by_pattern_filter signatures_default default_signatures_def
        http_response_def string_simps signature_simps)
  then have nonempty: "find_by_pattern SignatureDatabase_init http_response \<noteq> []"
    by simp
  show ?thesis
    using detect_by_data_pattern_confidence [OF nonempty, of "Some 80" tcp, unfolded found]
      detect_by_data_pattern_confidence [OF nonempty, of "Some 443" tcp, unfolded found]
    by (simp add: found default_signatures_def add_match_def DetectionResult_init_def
        Signature_init_def tcp_def string_simps)
qed

text \<open>
  C2 as stated fails when the supplied port is 0: the signature on port 0 is found by
  its pattern, its port and protocol equal the supplied ones, and it is added with
  confidence 0.95, not 1.0.
\<close>

theorem detect_by_data_zero_port_counterexample:
  "find_by_pattern zero_port_database (bytes ''X'') = [zero_port_signature]
   \<and> matches_port zero_port_signature 0 tcp
   \<and> detect_by_data zero_port_database (bytes ''X'') (Some 0) tcp
       = add_calls (DetectionResult_init 0 tcp) [(zero_port_signature, 0.95)]"
  by (simp add: zero_port_database_def zero_port_signature_def find_by_pattern_filter
      detector_simps tcp_def string_simps signature_simps find_by_port_def)

text \<open>
  C3, as the code has it. The code tests \<open>not pattern_matches and port\<close>, so the
  fallback needs a non-zero port. When pattern matching finds nothing and a non-zero
  port \<open>p\<close> was supplied, the result is the fresh result after one \<open>add_match\<close> call
  per \<open>find_by_port(p, protocol)\<close> result, each with confidence exactly 0.5. When a
  pattern match exists, or no port or the port 0 was supplied, the matches are the
  pattern matches and nothing else.
\<close>

theorem detect_by_data_port_fallback:
  "(find_by_pattern db data = [] \<and> p \<noteq> 0 \<longrightarrow>
      detect_by_data db data (Some p) proto =
        add_calls (DetectionResult_init p proto)
          (map (\<lambda>sig. (sig, 0.5)) (find_by_port db p proto)))
   \<and> (find_by_pattern db data \<noteq> [] \<or> prt = None \<or> prt = Some 0 \<longrightarrow>
      matches (detect_by_data db data prt proto) = find_by_pattern db data)"
  by (auto simp: detect_by_data_calls truthy_def matches_add_calls DetectionResult_init_def
      comp_def)

text \<open>
  \<open>detect_by_data(b"UNKNOWN PROTOCOL DATA", port=80)\<close> on the default database yields
  the match HTTP with confidence exactly 0.5; without a port, or with port 0, it
  yields no match.
\<close>

theorem detect_by_data_port_fallback_witness:
  "find_by_pattern SignatureDatabase_init unknown_data = []
   \<and> map name (matches (detect_by_data SignatureDatabase_init unknown_data (Some 80) tcp))
       = [ascii ''HTTP'']
   \<and> confidence (detect_by_data SignatureDatabase_init unknown_data (Some 80) tcp) = 0.5
   \<and> matches (detect_by_data SignatureDatabase_init unknown_data None tcp) = []
   \<and> matches (detect_by_data SignatureDatabase_init unknown_data (Some 0) tcp) = []"
proof -
  have none: "find_by_pattern SignatureDatabase_init unknown_data = []"
    by (simp add: find_by_pattern_filter signatures_default default_signatures_def
        unknown_data_def string_simps signature_simps)
  have port80: "find_by_port SignatureDatabase_init 80 tcp = [hd default_signatures]"
    by (simp add: find_by_port_def signatures_default default_signatures_def
        tcp_def string_simps signature_simps)
  show ?thesis
    using detect_by_data_port_fallback
        [of SignatureDatabase_init unknown_data 80 tcp None, unfolded none port80]
      detect_by_data_port_fallback
        [of SignatureDatabase_init unknown_data 80 tcp "Some 0", unfolded none port80]
    by (simp add: none default_signatures_def add_match_def DetectionResult_init_def
        Signature_init_def ascii_def)
qed

text \<open>
  C3 as stated fails when the supplied port is 0: pattern matching finds nothing,
  \<open>find_by_port(0, "tcp")\<close> has a result, and the detection has no match.
\<close>

theorem detect_by_data_fallback_zero_port_counterexample:
  "find_by_pattern zero_port_database (bytes ''Y'') = []
   \<and> find_by_port zero_port_database 0 tcp = [zero_port_signature]
   \<and> matches (detect_by_data zero_port_database (bytes ''Y'') (Some 0) tcp) = []"
  by (simp add: zero_port_database_def zero_port_signature_def find_by_pattern_filter
      detector_simps tcp_def string_simps signature_simps find_by_port_def)

text \<open>
  C10. A signature whose pattern list contains the empty string matches every byte
  sample: \<open>matches_pattern\<close> is true for it whatever the data, and if it is in the
  database then \<open>find_by_pattern\<close> returns it and \<open>detect_by_data\<close> has it among its
  matches, with a result confidence of 0.95 or 1.0, for every sample, port and protocol.
\<close>

theorem empty_pattern_matches_every_sample:
  assumes "[] \<in> set (patterns sig)"
  shows "matches_pattern sig data
    \<and> (sig \<in> set (signatures db) \<longrightarrow>
         sig \<in> set (find_by_pattern db data)
         \<and> sig \<in> set (matches (detect_by_data db data prt proto))
         \<and> (confidence (detect_by_data db data prt proto) = 0.95
            \<or> confidence (detect_by_data db data prt proto) = 1))"
proof -
  from assms have nonempty: "patterns sig \<noteq> []" by auto
  from assms have m: "matches_pattern sig data"
    by (rule empty_pattern_matches)
  have rest: "sig \<in> set (find_by_pattern db data)
      \<and> sig \<in> set (matches (detect_by_data db data prt proto))
      \<and> (confidence (detect_by_data db data prt proto) = 0.95
         \<or> confidence (detect_by_data db data prt proto) = 1)"
    if member: "sig \<in> set (signatures db)"
  proof -
    let ?pm = "find_by_pattern db data"
    let ?S = "pattern_confidence prt proto ` set ?pm"
    have found: "sig \<in> set ?pm"
      using member m nonempty by (simp add: find_by_pattern_filter)
    then have ne: "?pm \<noteq> []" by auto
    have in_matches: "sig \<in> set (matches (detect_by_data db data prt proto))"
      using found ne
      by (simp add: detect_by_data_calls matches_add_calls DetectionResult_init_def comp_def)
    have conf: "confidence (detect_by_data db data prt proto) = Max (insert 0 ?S)"
      using ne
      by (simp add: detect_by_data_calls confidence_add_calls DetectionResult_init_def
          image_image)
    have S_ne: "?S \<noteq> {}" using ne by simp
    have S_vals: "\<forall>c \<in> ?S. c = 0.95 \<or> c = 1"
      using pattern_confidence_cases by auto
    have "Max (insert 0 ?S) = max 0 (Max ?S)"
      using S_ne by simp
    moreover have "Max ?S \<in> ?S"
      using S_ne by (intro Max_in) simp_all
    ultimately have "Max (insert 0 ?S) = 0.95 \<or> Max (insert 0 ?S) = 1"
      using S_vals by (auto simp: max_def)
    with found in_matches conf show ?thesis by simp
  qed
  from m rest show ?thesis by blast
qed

text \<open>
  The signature with the pattern \<open>""\<close> matches the empty sample, and is the one entry
  found for \<open>b"UNKNOWN PROTOCOL DATA"\<close>, which is then detected with confidence 0.95.
\<close>

theorem empty_pattern_matches_every_sample_witness:
  "[] \<in> set (patterns empty_pattern_signature)
   \<and> empty_pattern_signature \<in> set (signatures empty_pattern_database)
   \<and> matches_pattern empty_pattern_signature []
   \<and> find_by_pattern empty_pattern_database unknown_data = [empty_pattern_signature]
   \<and> confidence (detect_by_data empty_pattern_database unknown_data (Some 80) tcp) = 0.95"
proof -
  have hyp: "[] \<in> set (patterns empty_pattern_signature)"
    by (simp add: empty_pattern_signature_def Signature_init_def)
  have "find_by_pattern empty_pattern_database unknown_data = [empty_pattern_signature]"
    by (simp add: find_by_pattern_filter empty_pattern_database_def empty_pattern_signature_def
        ab_signature_def unknown_data_def tcp_def string_simps signature_simps)
  moreover
  have "confidence (detect_by_data empty_pattern_database unknown_data (Some 80) tcp) = 0.95"
    by (simp add: calculation detect_by_data_def pattern_confidence_def add_match_def
        DetectionResult_init_def empty_pattern_signature_def Signature_init_def
        matches_port_def)
  ultimately show ?thesis
    using hyp
      empty_pattern_matches_every_sample [OF hyp, of "[]" empty_pattern_database "Some 80" tcp]
    by (simp add: empty_pattern_database_def)
qed

section \<open>Detection results\<close>

text \<open>
  C5. \<open>get_best_match\<close> returns nothing when \<open>matches\<close> is empty and the first element
  of \<open>matches\<close> otherwise; after any sequence of \<open>add_match\<close> calls on a fresh result
  that is the first signature added, whatever the confidence values of that call and of
  the later ones.
\<close>

theorem get_best_match_first:
  "(matches result = [] \<longrightarrow> get_best_match result = None)
   \<and> (matches result = first # others \<longrightarrow> get_best_match result = Some first)
   \<and> get_best_match (add_calls (DetectionResult_init prt proto) ((first, conf) # calls))
       = Some first"
  by (simp add: get_best_match_def matches_add_calls add_match_def DetectionResult_init_def)

text \<open>
  A fresh result has no best match. After a match added with confidence 0.5 and a
  second one added with confidence 1.0, the confidence is 1.0 and the best match is
  still the first.
\<close>

theorem get_best_match_first_witness:
  "matches (DetectionResult_init 80 tcp) = []
   \<and> get_best_match (DetectionResult_init 80 tcp) = None
   \<and> matches (add_calls (DetectionResult_init 80 tcp)
        [(ab_signature, 0.5), (zero_port_signature, 1)]) = [ab_signature, zero_port_signature]
   \<and> confidence (add_calls (DetectionResult_init 80 tcp)
        [(ab_signature, 0.5), (zero_port_signature, 1)]) = 1
   \<and> get_best_match (add_calls (DetectionResult_init 80 tcp)
        [(ab_signature, 0.5), (zero_port_signature, 1)]) = Some ab_signature"
  using get_best_match_first
      [of "DetectionResult_init 80 tcp" ab_signature "[]" 80 tcp "0.5" "[]"]
    get_best_match_first
      [of "add_calls (DetectionResult_init 80 tcp)
             [(ab_signature, 0.5), (zero_port_signature, 1)]"
          ab_signature "[zero_port_signature]" 80 tcp "0.5" "[(zero_port_signature, 1)]"]
  by (simp add: add_match_def DetectionResult_init_def)

text \<open>
  C6. Confidence values are scalars in the range from 0 to 1. After any sequence of
  \<open>add_match\<close> calls on a fresh result with such values, the confidence field equals
  the maximum of all the values supplied during those calls, and it equals 0.0 when no
  match was added; \<open>detect_by_port\<close> on a port that no signature matches yields no match
  and confidence 0.0.
\<close>

theorem confidence_is_max:
  assumes "\<forall>c \<in> snd ` set calls. 0 \<le> c \<and> c \<le> 1"
  shows "(calls \<noteq> [] \<longrightarrow>
        confidence (add_calls (DetectionResult_init prt proto) calls) = Max (snd ` set calls))
   \<and> confidence (add_calls (DetectionResult_init prt proto) []) = 0
   \<and> (find_by_port db prt proto = [] \<longrightarrow>
        matches (detect_by_port db prt proto) = []
        \<and> confidence (detect_by_port db prt proto) = 0)"
proof -
  have init: "confidence (DetectionResult_init prt proto) = 0"
    by (simp add: DetectionResult_init_def)
  have general: "confidence (add_calls (DetectionResult_init prt proto) calls)
      = Max (insert 0 (snd ` set calls))"
    by (simp add: confidence_add_calls init)
  have nonempty: "Max (insert 0 (snd ` set calls)) = Max (snd ` set calls)"
    if "calls \<noteq> []"
  proof -
    from that have ne: "snd ` set calls \<noteq> {}" by simp
    then have "Max (snd ` set calls) \<in> snd ` set calls"
      by (intro Max_in) simp_all
    with assms have "0 \<le> Max (snd ` set calls)" by blast
    with ne show ?thesis by (simp add: max_def)
  qed
  show ?thesis
    using general nonempty
    by (simp add: detect_by_port_calls DetectionResult_init_def)
qed

text \<open>
  After matches added with confidence 0.5, 0.95 and 0.7 the confidence is 0.95, the
  largest of the three; \<open>detect_by_port(99999, "tcp")\<close> on the default database yields
  zero matches and confidence 0.0.
\<close>

theorem confidence_is_max_witness:
  "confidence (add_calls (DetectionResult_init 80 tcp)
      [(ab_signature, 0.5), (zero_port_signature, 0.95), (ab_signature, 0.7)]) = 0.95
   \<and> Max (snd ` set [(ab_signature, 0.5 :: real), (zero_port_signature, 0.95),
        (ab_signature, 0.7)]) = 0.95
   \<and> find_by_port SignatureDatabase_init 99999 tcp = []
   \<and> matches (detect_by_port SignatureDatabase_init 99999 tcp) = []
   \<and> confidence (detect_by_port SignatureDatabase_init 99999 tcp) = 0"
proof -
  have range: "\<forall>c \<in> snd ` set [(ab_signature, 0.5 :: real), (zero_port_signature, 0.95),
      (ab_signature, 0.7)]. 0 \<le> c \<and> c \<le> 1"
    by simp
  have none: "find_by_port SignatureDatabase_init 99999 tcp = []"
    by (simp add: find_by_port_def signatures_default default_signatures_def
        tcp_def string_simps signature_simps)
  show ?thesis
    using confidence_is_max [OF range, of 99999 tcp SignatureDatabase_init]
      confidence_is_max [OF range, of 80 tcp SignatureDatabase_init]
    by (simp add: none)
qed

section \<open>Dispatch and batches\<close>

text \<open>
  C8, as the code has it. The code tests \<open>if data\<close>, which is false for the empty byte
  string too. For every port (0 included) and protocol, \<open>detect\<close> returns exactly the
  result of \<open>detect_by_data(data, port, protocol)\<close> when non-empty data is supplied, and
  exactly the result of \<open>detect_by_port(port, protocol)\<close> when the data is empty or
  absent.
\<close>

theorem detect_dispatch:
  "(data \<noteq> [] \<longrightarrow> detect db prt proto (Some data) = detect_by_data db data (Some prt) proto)
   \<and> detect db prt proto (Some []) = detect_by_port db prt proto
   \<and> detect db prt proto None = detect_by_port db prt proto"
  by (simp add: detect_def)

text \<open>With the HTTP response as data, ports 80 and 0 both go through \<open>detect_by_data\<close>.\<close>

theorem detect_dispatch_witness:
  "http_response \<noteq> []
   \<and> detect SignatureDatabase_init 80 tcp (Some http_response)
       = detect_by_data SignatureDatabase_init http_response (Some 80) tcp
   \<and> detect SignatureDatabase_init 0 tcp (Some http_response)
       = detect_by_data SignatureDatabase_init http_response (Some 0) tcp
   \<and> detect SignatureDatabase_init 443 tcp None = detect_by_port SignatureDatabase_init 443 tcp"
  using detect_dispatch [of http_response SignatureDatabase_init 80 tcp]
    detect_dispatch [of http_response SignatureDatabase_init 0 tcp]
    detect_dispatch [of http_response SignatureDatabase_init 443 tcp]
  by (simp add: http_response_def)

text \<open>
  C8 as stated fails when the data supplied is \<open>b""\<close>: \<open>detect(80, "tcp", b"")\<close> is the
  port detection, with confidence 0.7, whereas \<open>detect_by_data(b"", 80, "tcp")\<close> has
  confidence 0.5.
\<close>

theorem detect_empty_data_counterexample:
  "confidence (detect SignatureDatabase_init 80 tcp (Some [])) = 0.7
   \<and> confidence (detect_by_data SignatureDatabase_init [] (Some 80) tcp) = 0.5"
proof -
  have none: "find_by_pattern SignatureDatabase_init [] = []"
    by (simp add: find_by_pattern_filter signatures_default default_signatures_def
        tcp_def string_simps signature_simps)
  have port80: "find_by_port SignatureDatabase_init 80 tcp = [hd default_signatures]"
    by (simp add: find_by_port_def signatures_default default_signatures_def
        tcp_def string_simps signature_simps)
  show ?thesis
    by (simp add: detect_def detect_by_port_def detect_by_data_def none port80
        add_match_def DetectionResult_init_def)
qed

lemma detect_multiple_loop_map:
  "detect_multiple_loop db services results =
     results @
     map (\<lambda>svc. detect db (the (s_port svc))
                  (case s_protocol svc of None \<Rightarrow> ascii ''tcp'' | Some p \<Rightarrow> p) (s_data svc))
       (filter (\<lambda>svc. truthy (s_port svc)) services)"
  by (induction services arbitrary: results) (simp_all add: truthy_def split: option.splits)

text \<open>
  C9. \<open>detect_multiple\<close> skips the queries whose port is absent or 0 and returns, in the
  order of the input, the \<open>detect\<close> result of every other query, the protocol being
  \<open>tcp\<close> where the query names none. The function is total: no query makes it fail, and
  a skipped query leaves nothing in the output.
\<close>

theorem detect_multiple_skips_falsy_ports:
  "detect_multiple db services =
     map (\<lambda>svc. detect db (the (s_port svc))
                  (case s_protocol svc of None \<Rightarrow> ascii ''tcp'' | Some p \<Rightarrow> p) (s_data svc))
       (filter (\<lambda>svc. s_port svc \<noteq> None \<and> s_port svc \<noteq> Some 0) services)"
proof -
  have eq: "(\<lambda>svc. truthy (s_port svc))
      = (\<lambda>svc. s_port svc \<noteq> None \<and> s_port svc \<noteq> Some 0)"
    by (auto simp: truthy_def fun_eq_iff split: option.splits)
  show ?thesis
    by (simp only: detect_multiple_def detect_multiple_loop_map eq append_Nil)
qed

text \<open>Of the four sample queries the second (port 0) and the third (no port) are skipped.\<close>

theorem detect_multiple_skips_falsy_ports_witness:
  "detect_multiple SignatureDatabase_init sample_queries =
     [detect SignatureDatabase_init 80 tcp None,
      detect SignatureDatabase_init 22 tcp (Some (bytes ''SSH-2.0''))]"
  using detect_multiple_skips_falsy_ports [of SignatureDatabase_init sample_queries]
  by (simp add: sample_queries_def tcp_def)

section \<open>Export and import\<close>

lemma lower_idem: "lower (lower s) = lower s"
  by (simp add: lower_def lower_char_def)

lemma constructed_Signature_init: "constructed (Signature_init nm prt proto pats descr)"
  by (simp add: constructed_def Signature_init_def lower_idem)

text \<open>A signature survives \<open>to_dict\<close> and \<open>from_dict\<close> exactly when its protocol is in lower case.\<close>

lemma from_dict_to_dict_iff: "from_dict (to_dict sig) = Inr sig \<longleftrightarrow> constructed sig"
proof
  assume "from_dict (to_dict sig) = Inr sig"
  then have "protocol (Signature_init (name sig) (port sig) (protocol sig)
      (Some (patterns sig)) (description sig)) = protocol sig"
    by (simp add: from_dict_def to_dict_def)
  then show "constructed sig"
    by (simp add: constructed_def Signature_init_def)
next
  assume "constructed sig"
  then show "from_dict (to_dict sig) = Inr sig"
    by (simp add: from_dict_def to_dict_def Signature_init_def constructed_def)
qed

lemma load_loop_good:
  "map from_dict records = map Inr sigs \<Longrightarrow>
   load_loop records db = (Inr (), db\<lparr>signatures := signatures db @ sigs\<rparr>)"
proof (induction records arbitrary: db sigs)
  case Nil
  then show ?case by simp
next
  case (Cons r records)
  then obtain s sigs' where sigs: "sigs = s # sigs'" "from_dict r = Inr s"
    "map from_dict records = map Inr sigs'"
    by (cases sigs) auto
  with Cons.IH [of sigs' "db\<lparr>signatures := signatures db @ [s]\<rparr>"]
  show ?case by simp
qed

lemma load_loop_bad:
  "map from_dict good = map Inr sigs \<Longrightarrow> from_dict bad = Inl e \<Longrightarrow>
   load_loop (good @ bad # rest) db = (Inl e, db\<lparr>signatures := signatures db @ sigs\<rparr>)"
proof (induction good arbitrary: db sigs)
  case Nil
  then show ?case by simp
next
  case (Cons r good)
  then obtain s sigs' where sigs: "sigs = s # sigs'" "from_dict r = Inr s"
    "map from_dict good = map Inr sigs'"
    by (cases sigs) auto
  with Cons.IH [of sigs' "db\<lparr>signatures := signatures db @ [s]\<rparr>"] Cons.prems(2)
  show ?case by simp
qed

text \<open>
  C7. For every database whose signatures are as the constructor makes them (protocol
  in lower case), loading the exported record list, into any database, succeeds and
  yields a database with the same ordered sequence of signatures: every signature is
  its own \<open>from_dict\<close> after \<open>to_dict\<close>, so name, port, protocol, patterns and description
  are equal entry by entry.
\<close>

theorem export_import_round_trip:
  assumes "list_all constructed (signatures db)"
  shows "load_from_file (save_to_file db) db' = (Inr (), db)
    \<and> map from_dict (map to_dict (signatures db)) = map Inr (signatures db)"
proof -
  have m: "map from_dict (map to_dict (signatures db)) = map Inr (signatures db)"
    using assms by (simp add: list_all_iff from_dict_to_dict_iff)
  show ?thesis
    using load_loop_good [OF m, of "db'\<lparr>signatures := []\<rparr>"] m
    by (simp add: load_from_file_def save_to_file_def)
qed

text \<open>The default database, exported and loaded into another database, is the default database.\<close>

theorem export_import_round_trip_witness:
  "list_all constructed (signatures SignatureDatabase_init)
   \<and> load_from_file (save_to_file SignatureDatabase_init) ab_database
       = (Inr (), SignatureDatabase_init)"
proof -
  have hyp: "list_all constructed (signatures SignatureDatabase_init)"
    by (simp add: signatures_default default_signatures_def constructed_Signature_init)
  show ?thesis
    using hyp export_import_round_trip [OF hyp, of ab_database] by simp
qed

text \<open>
  A record list in which some record lacks \<open>name\<close> or \<open>port\<close> splits at the first such
  record, and every record before it deserialises.
\<close>

lemma missing_field_split:
  assumes "\<exists>d \<in> set records. d_name d = None \<or> d_port d = None"
  shows "\<exists>good bad rest sigs. records = good @ bad # rest
    \<and> map from_dict good = map Inr sigs \<and> (d_name bad = None \<or> d_port bad = None)"
proof -
  from assms obtain good bad rest where split: "records = good @ bad # rest"
    "d_name bad = None \<or> d_port bad = None"
    "\<forall>d \<in> set good. \<not> (d_name d = None \<or> d_port d = None)"
    using split_list_first_prop [of records "\<lambda>d. d_name d = None \<or> d_port d = None"]
    by blast
  have "\<exists>sigs. map from_dict good = map Inr sigs"
    using split(3)
  proof (induction good)
    case Nil
    then show ?case by simp
  next
    case (Cons d good)
    then obtain sigs where "map from_dict good = map Inr sigs" by auto
    moreover from Cons.prems obtain s where "from_dict d = Inr s"
      by (auto simp: from_dict_def)
    ultimately have "map from_dict (d # good) = map Inr (s # sigs)" by simp
    then show ?case by blast
  qed
  with split(1,2) show ?thesis by blast
qed

text \<open>
  C4, as the code has it. \<open>load_from_file\<close> empties the collection before it reads the
  records and appends them one by one. When a record lacks \<open>name\<close> or \<open>port\<close> and the
  records before it are well-formed, the call fails with \<open>KeyError\<close> (for \<open>name\<close> if
  that is missing, else for \<open>port\<close>); no record at or after the malformed one is
  imported, the previous contents are gone, and the collection holds the signatures of
  the records before the malformed one.
\<close>

theorem load_from_file_missing_field:
  assumes "map from_dict good = map Inr sigs"
    and "d_name bad = None \<or> d_port bad = None"
  shows "load_from_file (good @ bad # rest) db =
    (Inl (KeyError (if d_name bad = None then ''name'' else ''port'')),
     db\<lparr>signatures := sigs\<rparr>)"
proof -
  have "from_dict bad = Inl (KeyError (if d_name bad = None then ''name'' else ''port''))"
    using assms(2) by (auto simp: from_dict_def split: option.splits)
  from load_loop_bad [OF assms(1) this, of rest "db\<lparr>signatures := []\<rparr>"]
  show ?thesis by (simp add: load_from_file_def)
qed

text \<open>
  Loading a good record, a record without \<open>port\<close> and another good record into the
  default database fails with \<open>KeyError('port')\<close> and leaves the first record's
  signature as the only entry.
\<close>

theorem load_from_file_missing_field_witness:
  "map from_dict [to_dict ab_signature] = map Inr [ab_signature]
   \<and> d_port portless_record = None
   \<and> load_from_file [to_dict ab_signature, portless_record, to_dict zero_port_signature]
         SignatureDatabase_init
       = (Inl (KeyError ''port''), ab_database)"
proof -
  have good: "map from_dict [to_dict ab_signature] = map Inr [ab_signature]"
    by (simp add: from_dict_to_dict_iff ab_signature_def constructed_Signature_init)
  have bad: "d_name portless_record = None \<or> d_port portless_record = None"
    by (simp add: portless_record_def)
  show ?thesis
    using good load_from_file_missing_field [OF good bad, of "[to_dict zero_port_signature]"
        SignatureDatabase_init]
    by (simp add: portless_record_def ab_database_def)
qed

text \<open>
  C4 as stated fails: the database held the signature \<open>ZERO\<close>; after the failed import
  of a good record followed by one without \<open>name\<close> it holds the signature \<open>AB\<close> of the
  good record instead, a partly replaced collection.
\<close>

theorem load_from_file_partial_state_counterexample:
  "load_from_file [to_dict ab_signature, nameless_record] zero_port_database
     = (Inl (KeyError ''name''), ab_database)
   \<and> signatures zero_port_database = [zero_port_signature]
   \<and> signatures ab_database = [ab_signature]
   \<and> ab_signature \<noteq> zero_port_signature"
  by (simp add: load_from_file_def from_dict_def to_dict_def nameless_record_def
      zero_port_database_def ab_database_def ab_signature_def zero_port_signature_def
      Signature_init_def tcp_def string_simps)

end
